theory Spec2Isabelle
  imports Main
begin

section \<open>Python values crossing the JSON boundary\<close>

text \<open>
  The payloads handed to \<^verbatim>\<open>deserialize\<close> and produced by \<^verbatim>\<open>serialize\<close> are decoded JSON:
  \<^verbatim>\<open>None\<close>, booleans, integers, strings, lists and dictionaries with string keys.
  A dictionary is an association list; a key is looked up with \<open>map_of\<close>, so the first
  binding of a key is the one the dictionary holds. Floating point numbers are left out.
\<close>

datatype pyval =
    PNone
  | PBool bool
  | PInt int
  | PStr string
  | PList "pyval list"
  | PDict "(string \<times> pyval) list"

text \<open>
  The exceptions of \<^verbatim>\<open>models.py\<close>: \<^verbatim>\<open>KeyError\<close> carries the missing key
  (\<^verbatim>\<open>error.args[0]\<close>), \<^verbatim>\<open>TypeError\<close> is raised by subscripting a value that is not a
  dictionary with a string, \<^verbatim>\<open>DataValidationError\<close> is the class declared at line 8 and
  carries its message. \<^verbatim>\<open>IntegrityError\<close> is what the storage engine raises when it
  rejects a commit.
\<close>

datatype exn =
    KeyError string
  | TypeError
  | DataValidationError string
  | IntegrityError

fun is_mapping :: "pyval \<Rightarrow> bool" where
  "is_mapping (PDict kvs) = True"
| "is_mapping v = False"

text \<open>\<^verbatim>\<open>data[key]\<close> for a string key.\<close>

fun getitem :: "pyval \<Rightarrow> string \<Rightarrow> exn + pyval" where
  "getitem (PDict kvs) k = (case map_of kvs k of None \<Rightarrow> Inl (KeyError k) | Some v \<Rightarrow> Inr v)"
| "getitem v k = Inl TypeError"

section \<open>The two entities\<close>

text \<open>
  Both classes derive from \<^verbatim>\<open>db.Model\<close> and declare the same column \<^verbatim>\<open>id\<close>, an
  integer primary key that is \<^verbatim>\<open>None\<close> until it is assigned; it is the field
  \<open>id_col\<close> of the base record. Every other attribute holds whatever Python value
  was assigned to it.
\<close>

record Model =
  id_col :: "int option"

record Item = Model +
  wishlist_id :: pyval
  product_id :: pyval
  name :: pyval
  description :: pyval

record Wishlist = Model +
  customer_id :: pyval
  wishlist_name :: pyval

definition py_of_id :: "int option \<Rightarrow> pyval" where
  "py_of_id i = (case i of None \<Rightarrow> PNone | Some n \<Rightarrow> PInt n)"

subsection \<open>serialize\<close>

definition Item_serialize :: "Item \<Rightarrow> pyval" where
  "Item_serialize self = PDict
     [(''id'', py_of_id (id_col self)),
      (''wishlist_id'', wishlist_id self),
      (''product_id'', product_id self),
      (''name'', name self),
      (''description'', description self)]"

definition Wishlist_serialize :: "Wishlist \<Rightarrow> pyval" where
  "Wishlist_serialize self = PDict
     [(''id'', py_of_id (id_col self)),
      (''customer_id'', customer_id self),
      (''wishlist_name'', wishlist_name self)]"

subsection \<open>deserialize\<close>

text \<open>
  \<^verbatim>\<open>deserialize\<close> mutates \<^verbatim>\<open>self\<close> one attribute at a time and may raise in between,
  so the model returns the exception raised (if any) together with the state of the
  instance afterwards. The body of the \<^verbatim>\<open>try\<close> block comes first, the two
  \<^verbatim>\<open>except\<close> clauses after it.
\<close>

definition Item_try :: "Item \<Rightarrow> pyval \<Rightarrow> pyval \<Rightarrow> exn option \<times> Item" where
  "Item_try self data wl_id =
     (let self1 = self\<lparr>wishlist_id := wl_id\<rparr> in
      case getitem data ''product_id'' of
        Inl e \<Rightarrow> (Some e, self1)
      | Inr p \<Rightarrow>
          (let self2 = self1\<lparr>product_id := p\<rparr> in
           case getitem data ''name'' of
             Inl e \<Rightarrow> (Some e, self2)
           | Inr n \<Rightarrow>
               (let self3 = self2\<lparr>name := n\<rparr> in
                case getitem data ''description'' of
                  Inl e \<Rightarrow> (Some e, self3)
                | Inr d \<Rightarrow> (None, self3\<lparr>description := d\<rparr>))))"

definition Item_deserialize :: "Item \<Rightarrow> pyval \<Rightarrow> pyval \<Rightarrow> exn option \<times> Item" where
  "Item_deserialize self data wl_id =
     (case Item_try self data wl_id of
        (Some (KeyError k), self') \<Rightarrow>
          (Some (DataValidationError (''Invalid item: missing '' @ k)), self')
      | (Some TypeError, self') \<Rightarrow>
          (Some (DataValidationError
             ''Invalid item: body of request contained bad or no data''), self')
      | r \<Rightarrow> r)"

definition Wishlist_try :: "Wishlist \<Rightarrow> pyval \<Rightarrow> exn option \<times> Wishlist" where
  "Wishlist_try self data =
     (case getitem data ''customer_id'' of
        Inl e \<Rightarrow> (Some e, self)
      | Inr c \<Rightarrow>
          (let self1 = self\<lparr>customer_id := c\<rparr> in
           case getitem data ''wishlist_name'' of
             Inl e \<Rightarrow> (Some e, self1)
           | Inr n \<Rightarrow> (None, self1\<lparr>wishlist_name := n\<rparr>)))"

definition Wishlist_deserialize :: "Wishlist \<Rightarrow> pyval \<Rightarrow> exn option \<times> Wishlist" where
  "Wishlist_deserialize self data =
     (case Wishlist_try self data of
        (Some (KeyError k), self') \<Rightarrow>
          (Some (DataValidationError (''Invalid wishlist: missing '' @ k)), self')
      | (Some TypeError, self') \<Rightarrow>
          (Some (DataValidationError
             ''Invalid wishlist: body of request contained bad or no data''), self')
      | r \<Rightarrow> r)"

section \<open>The storage session\<close>

text \<open>
  The storage engine behind \<^verbatim>\<open>db.session\<close> and \<^verbatim>\<open>Model.query\<close> is an external
  collaborator (the \<^verbatim>\<open>flask_sqlalchemy\<close> import of line 3) and no part of
  \<^verbatim>\<open>models.py\<close>. The definitions of this section model what the spec says of it: a
  table of persisted rows, a unit of work that \<^verbatim>\<open>add\<close> and \<^verbatim>\<open>delete\<close> stage and
  \<^verbatim>\<open>commit\<close> writes, an integer primary key that is auto-assigned when a row is
  inserted without one, and constraint violations that surface as an error of the
  commit. The model works on one table at a time and on instances as values: the
  engine's tracking of changes to instances it has loaded is not modelled, and
  queries read the committed rows.
\<close>

text \<open>
  Modelled from the spec: the state of the storage session, which is missing from the
  sources. \<open>rows\<close> is the persisted table in insertion order, \<open>new\<close> the instances
  staged by \<^verbatim>\<open>add\<close>, \<open>deleted\<close> those staged by \<^verbatim>\<open>delete\<close>.
\<close>

record 'e session =
  rows :: "'e list"
  new :: "'e list"
  deleted :: "'e list"

text \<open>The sessions in which no operation is pending: what every commit leaves behind.\<close>

definition nothing_staged :: "'e session \<Rightarrow> bool" where
  "nothing_staged s = (new s = [] \<and> deleted s = [])"

text \<open>Modelled from the spec: \<^verbatim>\<open>db.session.add(instance)\<close>, missing from the sources.\<close>

definition session_add :: "'e session \<Rightarrow> 'e \<Rightarrow> 'e session" where
  "session_add s e = s\<lparr>new := new s @ [e]\<rparr>"


text \<open>
  Modelled from the spec: the key the engine auto-assigns (\<^verbatim>\<open>autoincrement=True\<close>), missing
  from the sources: one more than the largest key in the table, 1 for an empty table.
\<close>

definition fresh_id :: "'a Model_scheme list \<Rightarrow> int" where
  "fresh_id rs = fold max (List.map_filter id_col rs) 0 + 1"

text \<open>
  Modelled from the spec: the row that the engine inserts for an instance, missing from
  the sources. The key is auto-assigned on first save, that is when the instance has
  none; a key that the instance carries is kept.
\<close>

definition insert_row :: "'a Model_scheme list \<Rightarrow> 'a Model_scheme \<Rightarrow> 'a Model_scheme" where
  "insert_row rs e =
     (case id_col e of None \<Rightarrow> e\<lparr>id_col := Some (fresh_id rs)\<rparr> | Some i \<Rightarrow> e)"

text \<open>
  Modelled from the spec: the flush of the staged inserts, missing from the sources, in the
  order they were added. The result is the table and the staged instances as they are
  afterwards, each with its key.
\<close>

fun flush_new ::
  "'a Model_scheme list \<Rightarrow> 'a Model_scheme list \<Rightarrow> 'a Model_scheme list \<times> 'a Model_scheme list"
where
  "flush_new rs [] = (rs, [])"
| "flush_new rs (e # es) =
     (let r = insert_row rs e;
          (rs', es') = flush_new (rs @ [r]) es
      in (rs', r # es'))"

text \<open>
  Modelled from the spec: the flush of the staged deletes, missing from the sources. The rows
  with the key of a staged instance are removed.
\<close>

definition flush_deleted :: "'a Model_scheme list \<Rightarrow> 'a Model_scheme list \<Rightarrow> 'a Model_scheme list" where
  "flush_deleted rs ds = filter (\<lambda>r. id_col r \<notin> set (map id_col ds)) rs"

text \<open>
  Modelled from the spec: \<^verbatim>\<open>db.session.commit()\<close>, missing from the sources. The parameter
  \<open>accepts\<close> stands for the integrity constraints the engine enforces on the table
  (the \<^verbatim>\<open>nullable=False\<close> columns, the primary key, the foreign key of \<^verbatim>\<open>items\<close>): a
  commit that would leave the table in a state the engine does not accept raises and
  writes nothing. A commit with nothing staged writes nothing and succeeds. On
  success the result is the session and the instances that were inserted.
\<close>

definition session_commit ::
  "('a Model_scheme list \<Rightarrow> bool) \<Rightarrow> 'a Model_scheme session
     \<Rightarrow> exn + ('a Model_scheme session \<times> 'a Model_scheme list)"
where
  "session_commit accepts s =
     (if new s = [] \<and> deleted s = [] then Inr (s, [])
      else
        (let (rs1, es) = flush_new (rows s) (new s);
             rs2 = flush_deleted rs1 (deleted s)
         in if accepts rs2
            then Inr (\<lparr>rows = rs2, new = [], deleted = []\<rparr>, es)
            else Inl IntegrityError))"

text \<open>Modelled from the spec: \<^verbatim>\<open>Model.query.all()\<close>, missing from the sources.\<close>

definition query_all :: "'e session \<Rightarrow> 'e list" where
  "query_all s = rows s"

text \<open>
  Modelled from the spec: \<^verbatim>\<open>Model.query.get(id)\<close>, missing from the sources: the row with
  that key, or an absent result.
\<close>

definition query_get :: "'a Model_scheme session \<Rightarrow> int \<Rightarrow> 'a Model_scheme option" where
  "query_get s i = find (\<lambda>r. id_col r = Some i) (rows s)"

text \<open>
  Modelled from the spec: \<^verbatim>\<open>Model.query.filter(condition)\<close>, missing from the sources. The
  lazy query is a function of the session, which yields the matching rows when it is
  evaluated.
\<close>

definition query_filter :: "('e \<Rightarrow> bool) \<Rightarrow> 'e session \<Rightarrow> 'e list" where
  "query_filter p s = filter p (rows s)"

text \<open>
  The constraints that the column declarations of \<^verbatim>\<open>models.py\<close> state for each table
  by itself: the primary key is present and unique, the \<^verbatim>\<open>nullable=False\<close> columns
  are not \<^verbatim>\<open>None\<close>.
\<close>

definition Wishlist_columns_ok :: "Wishlist list \<Rightarrow> bool" where
  "Wishlist_columns_ok rs =
     (distinct (map id_col rs) \<and>
      list_all (\<lambda>r. id_col r \<noteq> None \<and> customer_id r \<noteq> PNone) rs)"

definition Item_columns_ok :: "Item list \<Rightarrow> bool" where
  "Item_columns_ok rs =
     (distinct (map id_col rs) \<and>
      list_all (\<lambda>r. id_col r \<noteq> None \<and> wishlist_id r \<noteq> PNone
                  \<and> product_id r \<noteq> PNone \<and> name r \<noteq> PNone) rs)"

section \<open>Persistence operations of the two classes\<close>

text \<open>
  \<^verbatim>\<open>if not self.id\<close> and \<^verbatim>\<open>if self.id\<close> test the truth value of the key: \<^verbatim>\<open>None\<close> and
  \<^verbatim>\<open>0\<close> are false, every other integer is true.
\<close>

definition truthy :: "int option \<Rightarrow> bool" where
  "truthy i = (case i of None \<Rightarrow> False | Some n \<Rightarrow> n \<noteq> 0)"

text \<open>
  \<^verbatim>\<open>save\<close> returns the session and the instance as it is after the commit; an
  exception of the commit propagates. When \<^verbatim>\<open>save\<close> has added the instance, it is
  the one staged last, so it is the last of the instances the commit inserted and
  carries the key of its row.
\<close>

definition Item_save ::
  "(Item list \<Rightarrow> bool) \<Rightarrow> Item session \<Rightarrow> Item \<Rightarrow> exn + (Item session \<times> Item)" where
  "Item_save accepts s self =
     (if \<not> truthy (id_col self)
      then (case session_commit accepts (session_add s self) of
              Inl e \<Rightarrow> Inl e
            | Inr (s', es) \<Rightarrow> Inr (s', last es))
      else (case session_commit accepts s of
              Inl e \<Rightarrow> Inl e
            | Inr (s', es) \<Rightarrow> Inr (s', self)))"


definition Item_all :: "Item session \<Rightarrow> Item list" where
  "Item_all s = query_all s"

definition Item_get :: "Item session \<Rightarrow> int \<Rightarrow> Item option" where
  "Item_get s item_id = query_get s item_id"

definition Item_find_by_name :: "pyval \<Rightarrow> Item session \<Rightarrow> Item list" where
  "Item_find_by_name n = query_filter (\<lambda>r. name r = n)"

definition Wishlist_save ::
  "(Wishlist list \<Rightarrow> bool) \<Rightarrow> Wishlist session \<Rightarrow> Wishlist
     \<Rightarrow> exn + (Wishlist session \<times> Wishlist)" where
  "Wishlist_save accepts s self =
     (if \<not> truthy (id_col self)
      then (case session_commit accepts (session_add s self) of
              Inl e \<Rightarrow> Inl e
            | Inr (s', es) \<Rightarrow> Inr (s', last es))
      else (case session_commit accepts s of
              Inl e \<Rightarrow> Inl e
            | Inr (s', es) \<Rightarrow> Inr (s', self)))"


definition Wishlist_all :: "Wishlist session \<Rightarrow> Wishlist list" where
  "Wishlist_all s = query_all s"

definition Wishlist_get :: "Wishlist session \<Rightarrow> int \<Rightarrow> Wishlist option" where
  "Wishlist_get s wl_id = query_get s wl_id"

text \<open>
  \<^verbatim>\<open>find_by_customer_id\<close> returns a query, which yields its rows when it is evaluated:
  a function of the session.
\<close>

definition Wishlist_find_by_customer_id :: "pyval \<Rightarrow> Wishlist session \<Rightarrow> Wishlist list" where
  "Wishlist_find_by_customer_id c = query_filter (\<lambda>r. customer_id r = c)"

section \<open>Facts about the storage session\<close>

lemmas deserialize_defs =
  Wishlist_deserialize_def Wishlist_try_def Item_deserialize_def Item_try_def

lemma fold_max_ge: "(a::int) \<le> fold max xs a"
  by (induction xs arbitrary: a) (auto intro: order_trans [OF max.cobounded2])

lemma fold_max_mem: "(x::int) \<in> set xs \<Longrightarrow> x \<le> fold max xs a"
proof (induction xs arbitrary: a)
  case Nil
  then show ?case by simp
next
  case (Cons y ys)
  show ?case
  proof (cases "x = y")
    case True
    have "x \<le> max x a" by simp
    also have "\<dots> \<le> fold max ys (max x a)" by (rule fold_max_ge)
    finally show ?thesis using True by simp
  next
    case False
    with Cons.prems have "x \<in> set ys" by simp
    then show ?thesis using Cons.IH by simp
  qed
qed

text \<open>The auto-assigned key is positive and larger than every key of the table.\<close>

lemma fresh_id_pos: "0 < fresh_id rs"
  using fold_max_ge [of 0 "List.map_filter id_col rs"] by (simp add: fresh_id_def)

lemma fresh_id_gt:
  assumes "r \<in> set rs" and "id_col r = Some i"
  shows "i < fresh_id rs"
proof -
  from assms have "i \<in> set (List.map_filter id_col rs)"
    by (force simp: List.map_filter_def)
  then have "i \<le> fold max (List.map_filter id_col rs) 0" by (rule fold_max_mem)
  then show ?thesis by (simp add: fresh_id_def)
qed

lemma fresh_id_unused: "r \<in> set rs \<Longrightarrow> Some (fresh_id rs) \<noteq> id_col r"
  using fresh_id_gt [of r rs "fresh_id rs"] by auto

lemma find_append_None: "find P xs = None \<Longrightarrow> find P (xs @ ys) = find P ys"
  by (induction xs) (auto split: if_splits)

lemma find_fresh_None: "find (\<lambda>r. id_col r = Some (fresh_id rs)) rs = None"
  by (auto simp: find_None_iff dest: fresh_id_gt)


lemma query_get_inserted:
  "id_col w = None \<Longrightarrow>
   query_get \<lparr>rows = rs @ [insert_row rs w], new = [], deleted = []\<rparr> (fresh_id rs)
     = Some (w\<lparr>id_col := Some (fresh_id rs)\<rparr>)"
  by (simp add: query_get_def insert_row_def find_append_None find_fresh_None)


lemma commit_add_clean:
  "nothing_staged s \<Longrightarrow>
   session_commit acc (session_add s w) =
     (if acc (rows s @ [insert_row (rows s) w])
      then Inr (\<lparr>rows = rows s @ [insert_row (rows s) w], new = [], deleted = []\<rparr>,
                [insert_row (rows s) w])
      else Inl IntegrityError)"
  by (simp add: nothing_staged_def session_commit_def session_add_def flush_deleted_def Let_def)



text \<open>
  A fresh instance whose required columns are set is accepted by the column
  constraints of its table, whatever valid table it is inserted into.
\<close>

lemma Wishlist_columns_ok_insert:
  "Wishlist_columns_ok rs \<Longrightarrow> id_col w = None \<Longrightarrow> customer_id w \<noteq> PNone \<Longrightarrow>
   Wishlist_columns_ok (rs @ [w\<lparr>id_col := Some (fresh_id rs)\<rparr>])"
  by (auto simp: Wishlist_columns_ok_def dest: fresh_id_unused)

lemma Item_columns_ok_insert:
  "Item_columns_ok rs \<Longrightarrow> id_col i = None \<Longrightarrow> wishlist_id i \<noteq> PNone \<Longrightarrow>
   product_id i \<noteq> PNone \<Longrightarrow> name i \<noteq> PNone \<Longrightarrow>
   Item_columns_ok (rs @ [i\<lparr>id_col := Some (fresh_id rs)\<rparr>])"
  by (auto simp: Item_columns_ok_def dest: fresh_id_unused)

section \<open>Round trip through serialize and deserialize\<close>

text \<open>
  C1. Deserializing what \<^verbatim>\<open>serialize\<close> produced returns normally and gives the receiving
  instance the data fields of the serialized entity: \<^verbatim>\<open>customer_id\<close> and
  \<^verbatim>\<open>wishlist_name\<close> for a Wishlist; \<^verbatim>\<open>wishlist_id\<close> (passed as the argument),
  \<^verbatim>\<open>product_id\<close>, \<^verbatim>\<open>name\<close> and \<^verbatim>\<open>description\<close> for an Item. The receiving
  instances \<open>r\<close> and \<open>q\<close> are arbitrary.
\<close>

theorem deserialize_serialize_shared_fields:
  "(let (e, w') = Wishlist_deserialize r (Wishlist_serialize w) in
      e = None \<and> customer_id w' = customer_id w \<and> wishlist_name w' = wishlist_name w)
   \<and>
   (let (e, i') = Item_deserialize q (Item_serialize i) (wishlist_id i) in
      e = None \<and> wishlist_id i' = wishlist_id i \<and> product_id i' = product_id i
      \<and> name i' = name i \<and> description i' = description i)"
  by (simp add: deserialize_defs Wishlist_serialize_def Item_serialize_def)

text \<open>
  C2, as stated, fails: \<^verbatim>\<open>serialize\<close> exposes \<^verbatim>\<open>id\<close>, but \<^verbatim>\<open>deserialize\<close> does not
  restore it. A Wishlist and an Item with id 1 are serialized and deserialized into
  new instances, whose id stays \<^verbatim>\<open>None\<close>.
\<close>

theorem deserialize_serialize_id_counterexample:
  "id_col (snd (Wishlist_deserialize
       \<lparr>id_col = None, customer_id = PNone, wishlist_name = PNone\<rparr>
       (Wishlist_serialize
          \<lparr>id_col = Some 1, customer_id = PInt 5, wishlist_name = PStr ''gifts''\<rparr>)))
     \<noteq> id_col \<lparr>id_col = Some 1, customer_id = PInt 5, wishlist_name = PStr ''gifts''\<rparr>
   \<and>
   id_col (snd (Item_deserialize
       \<lparr>id_col = None, wishlist_id = PNone, product_id = PNone, name = PNone,
        description = PNone\<rparr>
       (Item_serialize
          \<lparr>id_col = Some 1, wishlist_id = PInt 2, product_id = PInt 3, name = PStr ''pen'',
           description = PStr ''blue''\<rparr>)
       (PInt 2)))
     \<noteq> id_col \<lparr>id_col = Some 1, wishlist_id = PInt 2, product_id = PInt 3,
                name = PStr ''pen'', description = PStr ''blue''\<rparr>"
  by (simp add: deserialize_defs Wishlist_serialize_def Item_serialize_def)

text \<open>
  C2, amended. \<^verbatim>\<open>serialize\<close> and \<^verbatim>\<open>deserialize\<close> are inverse on the data fields that
  \<^verbatim>\<open>serialize\<close> exposes, not on \<^verbatim>\<open>id\<close>: the instance that receives the payload gets
  the data fields of the serialized entity and keeps the id it had before.
\<close>

theorem deserialize_serialize_keeps_receiver_id:
  "(let (e, w') = Wishlist_deserialize r (Wishlist_serialize w) in
      e = None \<and> id_col w' = id_col r
      \<and> customer_id w' = customer_id w \<and> wishlist_name w' = wishlist_name w)
   \<and>
   (let (e, i') = Item_deserialize q (Item_serialize i) (wishlist_id i) in
      e = None \<and> id_col i' = id_col q
      \<and> wishlist_id i' = wishlist_id i \<and> product_id i' = product_id i
      \<and> name i' = name i \<and> description i' = description i)"
  by (simp add: deserialize_defs Wishlist_serialize_def Item_serialize_def)

section \<open>Failures of deserialize\<close>

text \<open>
  C3. When the payload is a dictionary that lacks a required key, \<^verbatim>\<open>deserialize\<close> raises
  \<^verbatim>\<open>DataValidationError\<close> and the message names a missing key: the first one in the
  order the keys are read (\<^verbatim>\<open>customer_id\<close>, \<^verbatim>\<open>wishlist_name\<close> for a Wishlist;
  \<^verbatim>\<open>product_id\<close>, \<^verbatim>\<open>name\<close>, \<^verbatim>\<open>description\<close> for an Item).
\<close>

theorem deserialize_missing_key:
  "(filter (\<lambda>k. map_of kvs k = None) [''customer_id'', ''wishlist_name''] \<noteq> [] \<longrightarrow>
      fst (Wishlist_deserialize w (PDict kvs)) =
        Some (DataValidationError (''Invalid wishlist: missing '' @
          hd (filter (\<lambda>k. map_of kvs k = None) [''customer_id'', ''wishlist_name'']))))
   \<and>
   (filter (\<lambda>k. map_of kvs k = None) [''product_id'', ''name'', ''description''] \<noteq> [] \<longrightarrow>
      fst (Item_deserialize i (PDict kvs) wl_id) =
        Some (DataValidationError (''Invalid item: missing '' @
          hd (filter (\<lambda>k. map_of kvs k = None) [''product_id'', ''name'', ''description'']))))"
  by (auto simp: deserialize_defs split: option.splits)

theorem deserialize_missing_key_witness:
  "filter (\<lambda>k. map_of [(''customer_id'', PInt 5), (''product_id'', PInt 3), (''name'', PStr ''pen'')] k = None)
      [''customer_id'', ''wishlist_name''] = [''wishlist_name'']
   \<and> fst (Wishlist_deserialize \<lparr>id_col = None, customer_id = PNone, wishlist_name = PNone\<rparr>
        (PDict [(''customer_id'', PInt 5), (''product_id'', PInt 3), (''name'', PStr ''pen'')]))
      = Some (DataValidationError ''Invalid wishlist: missing wishlist_name'')
   \<and> filter (\<lambda>k. map_of [(''customer_id'', PInt 5), (''product_id'', PInt 3), (''name'', PStr ''pen'')] k = None)
      [''product_id'', ''name'', ''description''] = [''description'']
   \<and> fst (Item_deserialize
        \<lparr>id_col = None, wishlist_id = PNone, product_id = PNone, name = PNone,
         description = PNone\<rparr>
        (PDict [(''customer_id'', PInt 5), (''product_id'', PInt 3), (''name'', PStr ''pen'')])
        (PInt 2))
      = Some (DataValidationError ''Invalid item: missing description'')"
  using deserialize_missing_key
    [where kvs = "[(''customer_id'', PInt 5), (''product_id'', PInt 3), (''name'', PStr ''pen'')]"
       and w = "\<lparr>id_col = None, customer_id = PNone, wishlist_name = PNone\<rparr>"
       and i = "\<lparr>id_col = None, wishlist_id = PNone, product_id = PNone, name = PNone,
                 description = PNone\<rparr>"
       and wl_id = "PInt 2"]
  by simp

text \<open>
  C4. When the payload is not a dictionary (a list, \<^verbatim>\<open>None\<close>, a number, a string),
  \<^verbatim>\<open>deserialize\<close> raises \<^verbatim>\<open>DataValidationError\<close> with the message about bad or no data;
  and whatever the payload is, an exception raised by \<^verbatim>\<open>deserialize\<close> is a
  \<^verbatim>\<open>DataValidationError\<close>.
\<close>

theorem deserialize_not_a_mapping:
  "(\<not> is_mapping data \<longrightarrow>
      fst (Wishlist_deserialize w data) = Some (DataValidationError
         ''Invalid wishlist: body of request contained bad or no data'')
      \<and> fst (Item_deserialize i data wl_id) = Some (DataValidationError
         ''Invalid item: body of request contained bad or no data''))
   \<and> (\<forall>e. fst (Wishlist_deserialize w data) = Some e \<longrightarrow> (\<exists>m. e = DataValidationError m))
   \<and> (\<forall>e. fst (Item_deserialize i data wl_id) = Some e \<longrightarrow> (\<exists>m. e = DataValidationError m))"
  by (cases data) (auto simp: deserialize_defs split: option.splits)

theorem deserialize_not_a_mapping_witness:
  "\<not> is_mapping (PList [PInt 1, PInt 2])
   \<and> fst (Wishlist_deserialize \<lparr>id_col = None, customer_id = PNone, wishlist_name = PNone\<rparr>
        (PList [PInt 1, PInt 2]))
      = Some (DataValidationError ''Invalid wishlist: body of request contained bad or no data'')
   \<and> fst (Item_deserialize
        \<lparr>id_col = None, wishlist_id = PNone, product_id = PNone, name = PNone,
         description = PNone\<rparr> (PList [PInt 1, PInt 2]) (PInt 2))
      = Some (DataValidationError ''Invalid item: body of request contained bad or no data'')"
  using deserialize_not_a_mapping
    [where data = "PList [PInt 1, PInt 2]"
       and w = "\<lparr>id_col = None, customer_id = PNone, wishlist_name = PNone\<rparr>"
       and i = "\<lparr>id_col = None, wishlist_id = PNone, product_id = PNone, name = PNone,
                 description = PNone\<rparr>"
       and wl_id = "PInt 2"]
  by simp

text \<open>
  C9. \<^verbatim>\<open>deserialize\<close> leaves the id of the instance as it was, whether it returns or
  raises, and does not read the key \<^verbatim>\<open>id\<close> of the payload: two dictionaries that agree
  on every other key give the same result.
\<close>

theorem deserialize_ignores_id:
  "id_col (snd (Wishlist_deserialize w data)) = id_col w
   \<and> id_col (snd (Item_deserialize i data wl_id)) = id_col i
   \<and> ((\<forall>k. k \<noteq> ''id'' \<longrightarrow> map_of kvs k = map_of kvs' k) \<longrightarrow>
        Wishlist_deserialize w (PDict kvs) = Wishlist_deserialize w (PDict kvs')
        \<and> Item_deserialize i (PDict kvs) wl_id = Item_deserialize i (PDict kvs') wl_id)"
  by (cases data) (auto simp: deserialize_defs split: option.splits)

theorem deserialize_ignores_id_witness:
  "Wishlist_deserialize \<lparr>id_col = Some 4, customer_id = PNone, wishlist_name = PNone\<rparr>
      (PDict [(''id'', PInt 7), (''customer_id'', PInt 5), (''wishlist_name'', PStr ''gifts'')])
    = Wishlist_deserialize \<lparr>id_col = Some 4, customer_id = PNone, wishlist_name = PNone\<rparr>
      (PDict [(''customer_id'', PInt 5), (''wishlist_name'', PStr ''gifts'')])
   \<and> id_col (snd (Wishlist_deserialize
        \<lparr>id_col = Some 4, customer_id = PNone, wishlist_name = PNone\<rparr>
        (PDict [(''id'', PInt 7), (''customer_id'', PInt 5), (''wishlist_name'', PStr ''gifts'')])))
      = Some 4"
proof -
  have h: "\<forall>k. k \<noteq> ''id'' \<longrightarrow>
      map_of [(''id'', PInt 7), (''customer_id'', PInt 5), (''wishlist_name'', PStr ''gifts'')] k
      = map_of [(''customer_id'', PInt 5), (''wishlist_name'', PStr ''gifts'')] k"
    by simp
  note t = deserialize_ignores_id
      [where kvs = "[(''id'', PInt 7), (''customer_id'', PInt 5), (''wishlist_name'', PStr ''gifts'')]"
         and kvs' = "[(''customer_id'', PInt 5), (''wishlist_name'', PStr ''gifts'')]"
         and w = "\<lparr>id_col = Some 4, customer_id = PNone, wishlist_name = PNone\<rparr>"
         and data = "PDict [(''id'', PInt 7), (''customer_id'', PInt 5), (''wishlist_name'', PStr ''gifts'')]"]
  from mp [OF t [THEN conjunct2, THEN conjunct2] h] t [THEN conjunct1]
  show ?thesis by simp
qed

text \<open>
  C10. \<^verbatim>\<open>deserialize\<close> is not atomic. \<^verbatim>\<open>Item.deserialize\<close> always leaves
  \<^verbatim>\<open>wishlist_id\<close> set to its argument, and when reading a key fails, the attributes
  assigned before that key keep their new values while the later ones keep their
  old values: the order is \<^verbatim>\<open>wishlist_id\<close>, \<^verbatim>\<open>product_id\<close>, \<^verbatim>\<open>name\<close>,
  \<^verbatim>\<open>description\<close> for an Item and \<^verbatim>\<open>customer_id\<close>, \<^verbatim>\<open>wishlist_name\<close> for a Wishlist.
\<close>

theorem deserialize_not_atomic:
  "wishlist_id (snd (Item_deserialize i d wl_id)) = wl_id
   \<and> (getitem da ''product_id'' = Inl xa \<longrightarrow>
        (\<exists>m. Item_deserialize i da wl_id =
           (Some (DataValidationError m), i\<lparr>wishlist_id := wl_id\<rparr>)))
   \<and> (getitem db ''product_id'' = Inr pb \<and> getitem db ''name'' = Inl xb \<longrightarrow>
        (\<exists>m. Item_deserialize i db wl_id =
           (Some (DataValidationError m), i\<lparr>wishlist_id := wl_id, product_id := pb\<rparr>)))
   \<and> (getitem dc ''product_id'' = Inr pc \<and> getitem dc ''name'' = Inr nc
        \<and> getitem dc ''description'' = Inl xc \<longrightarrow>
        (\<exists>m. Item_deserialize i dc wl_id =
           (Some (DataValidationError m),
            i\<lparr>wishlist_id := wl_id, product_id := pc, name := nc\<rparr>)))
   \<and> (getitem dd ''customer_id'' = Inl xd \<longrightarrow>
        (\<exists>m. Wishlist_deserialize w dd = (Some (DataValidationError m), w)))
   \<and> (getitem de ''customer_id'' = Inr ce \<and> getitem de ''wishlist_name'' = Inl xe \<longrightarrow>
        (\<exists>m. Wishlist_deserialize w de =
           (Some (DataValidationError m), w\<lparr>customer_id := ce\<rparr>)))"
proof -
  have a: "wishlist_id (snd (Item_deserialize i d wl_id)) = wl_id"
    by (cases d) (auto simp: deserialize_defs split: option.splits)
  have b: "getitem da ''product_id'' = Inl xa \<longrightarrow>
        (\<exists>m. Item_deserialize i da wl_id =
           (Some (DataValidationError m), i\<lparr>wishlist_id := wl_id\<rparr>))"
    by (cases da) (auto simp: deserialize_defs split: option.splits)
  have c: "getitem db ''product_id'' = Inr pb \<and> getitem db ''name'' = Inl xb \<longrightarrow>
        (\<exists>m. Item_deserialize i db wl_id =
           (Some (DataValidationError m), i\<lparr>wishlist_id := wl_id, product_id := pb\<rparr>))"
    by (cases db) (auto simp: deserialize_defs split: option.splits)
  have d: "getitem dc ''product_id'' = Inr pc \<and> getitem dc ''name'' = Inr nc
        \<and> getitem dc ''description'' = Inl xc \<longrightarrow>
        (\<exists>m. Item_deserialize i dc wl_id =
           (Some (DataValidationError m),
            i\<lparr>wishlist_id := wl_id, product_id := pc, name := nc\<rparr>))"
    by (cases dc) (auto simp: deserialize_defs split: option.splits)
  have e: "getitem dd ''customer_id'' = Inl xd \<longrightarrow>
        (\<exists>m. Wishlist_deserialize w dd = (Some (DataValidationError m), w))"
    by (cases dd) (auto simp: deserialize_defs split: option.splits)
  have f: "getitem de ''customer_id'' = Inr ce \<and> getitem de ''wishlist_name'' = Inl xe \<longrightarrow>
        (\<exists>m. Wishlist_deserialize w de =
           (Some (DataValidationError m), w\<lparr>customer_id := ce\<rparr>))"
    by (cases de) (auto simp: deserialize_defs split: option.splits)
  from a b c d e f show ?thesis by (intro conjI)
qed

theorem deserialize_not_atomic_witness:
  "getitem PNone ''product_id'' = Inl TypeError
   \<and> Item_deserialize
        \<lparr>id_col = Some 4, wishlist_id = PInt 1, product_id = PInt 3, name = PStr ''pen'',
         description = PStr ''blue''\<rparr> PNone (PInt 2)
      = (Some (DataValidationError ''Invalid item: body of request contained bad or no data''),
         \<lparr>id_col = Some 4, wishlist_id = PInt 2, product_id = PInt 3, name = PStr ''pen'',
          description = PStr ''blue''\<rparr>)
   \<and> getitem (PDict [(''product_id'', PInt 8)]) ''product_id'' = Inr (PInt 8)
   \<and> getitem (PDict [(''product_id'', PInt 8)]) ''name'' = Inl (KeyError ''name'')
   \<and> Item_deserialize
        \<lparr>id_col = Some 4, wishlist_id = PInt 1, product_id = PInt 3, name = PStr ''pen'',
         description = PStr ''blue''\<rparr> (PDict [(''product_id'', PInt 8)]) (PInt 2)
      = (Some (DataValidationError ''Invalid item: missing name''),
         \<lparr>id_col = Some 4, wishlist_id = PInt 2, product_id = PInt 8, name = PStr ''pen'',
          description = PStr ''blue''\<rparr>)
   \<and> getitem (PDict [(''product_id'', PInt 8), (''name'', PStr ''ink'')]) ''description''
      = Inl (KeyError ''description'')
   \<and> Item_deserialize
        \<lparr>id_col = Some 4, wishlist_id = PInt 1, product_id = PInt 3, name = PStr ''pen'',
         description = PStr ''blue''\<rparr>
        (PDict [(''product_id'', PInt 8), (''name'', PStr ''ink'')]) (PInt 2)
      = (Some (DataValidationError ''Invalid item: missing description''),
         \<lparr>id_col = Some 4, wishlist_id = PInt 2, product_id = PInt 8, name = PStr ''ink'',
          description = PStr ''blue''\<rparr>)
   \<and> getitem (PDict []) ''customer_id'' = Inl (KeyError ''customer_id'')
   \<and> Wishlist_deserialize \<lparr>id_col = Some 4, customer_id = PInt 5, wishlist_name = PStr ''a''\<rparr>
        (PDict [])
      = (Some (DataValidationError ''Invalid wishlist: missing customer_id''),
         \<lparr>id_col = Some 4, customer_id = PInt 5, wishlist_name = PStr ''a''\<rparr>)
   \<and> getitem (PDict [(''customer_id'', PInt 9)]) ''wishlist_name''
      = Inl (KeyError ''wishlist_name'')
   \<and> Wishlist_deserialize \<lparr>id_col = Some 4, customer_id = PInt 5, wishlist_name = PStr ''a''\<rparr>
        (PDict [(''customer_id'', PInt 9)])
      = (Some (DataValidationError ''Invalid wishlist: missing wishlist_name''),
         \<lparr>id_col = Some 4, customer_id = PInt 9, wishlist_name = PStr ''a''\<rparr>)"
  using deserialize_not_atomic
    [where i = "\<lparr>id_col = Some 4, wishlist_id = PInt 1, product_id = PInt 3,
                  name = PStr ''pen'', description = PStr ''blue''\<rparr>"
       and wl_id = "PInt 2" and d = PNone
       and da = PNone and xa = TypeError
       and db = "PDict [(''product_id'', PInt 8)]" and pb = "PInt 8" and xb = "KeyError ''name''"
       and dc = "PDict [(''product_id'', PInt 8), (''name'', PStr ''ink'')]"
       and pc = "PInt 8" and nc = "PStr ''ink''" and xc = "KeyError ''description''"
       and w = "\<lparr>id_col = Some 4, customer_id = PInt 5, wishlist_name = PStr ''a''\<rparr>"
       and dd = "PDict []" and xd = "KeyError ''customer_id''"
       and de = "PDict [(''customer_id'', PInt 9)]" and ce = "PInt 9"
       and xe = "KeyError ''wishlist_name''"]
  by (simp add: deserialize_defs)

section \<open>save, delete and the queries\<close>




text \<open>
  C6. With nothing staged before, \<^verbatim>\<open>save\<close> on an instance without id whose row the
  engine accepts returns, the instance has a key that is not zero and was not in the
  table, and \<^verbatim>\<open>get\<close> with that key returns the instance.
\<close>

theorem save_fresh_assigns_id:
  "(nothing_staged s \<and> id_col w = None
      \<and> acc (rows s @ [w\<lparr>id_col := Some (fresh_id (rows s))\<rparr>]) \<longrightarrow>
      (\<exists>s' n. Wishlist_save acc s w = Inr (s', w\<lparr>id_col := Some n\<rparr>)
          \<and> n \<noteq> 0 \<and> Some n \<notin> set (map id_col (rows s))
          \<and> Wishlist_get s' n = Some (w\<lparr>id_col := Some n\<rparr>)))
   \<and> (nothing_staged t \<and> id_col i = None
      \<and> acc' (rows t @ [i\<lparr>id_col := Some (fresh_id (rows t))\<rparr>]) \<longrightarrow>
      (\<exists>t' n. Item_save acc' t i = Inr (t', i\<lparr>id_col := Some n\<rparr>)
          \<and> n \<noteq> 0 \<and> Some n \<notin> set (map id_col (rows t))
          \<and> Item_get t' n = Some (i\<lparr>id_col := Some n\<rparr>)))"
proof (intro conjI impI)
  assume h: "nothing_staged s \<and> id_col w = None
      \<and> acc (rows s @ [w\<lparr>id_col := Some (fresh_id (rows s))\<rparr>])"
  let ?n = "fresh_id (rows s)"
  let ?s' = "\<lparr>rows = rows s @ [insert_row (rows s) w], new = [], deleted = []\<rparr>"
  have ins: "insert_row (rows s) w = w\<lparr>id_col := Some ?n\<rparr>"
    using h by (simp add: insert_row_def)
  have "Wishlist_save acc s w = Inr (?s', w\<lparr>id_col := Some ?n\<rparr>)"
    using h by (simp add: Wishlist_save_def truthy_def commit_add_clean ins)
  moreover have "?n \<noteq> 0" using fresh_id_pos [of "rows s"] by simp
  moreover have "Some ?n \<notin> set (map id_col (rows s))"
    by (auto dest: fresh_id_unused)
  moreover have "Wishlist_get ?s' ?n = Some (w\<lparr>id_col := Some ?n\<rparr>)"
    using h query_get_inserted [of w "rows s"] by (simp add: Wishlist_get_def)
  ultimately show "\<exists>s' n. Wishlist_save acc s w = Inr (s', w\<lparr>id_col := Some n\<rparr>)
          \<and> n \<noteq> 0 \<and> Some n \<notin> set (map id_col (rows s))
          \<and> Wishlist_get s' n = Some (w\<lparr>id_col := Some n\<rparr>)"
    by blast
next
  assume h: "nothing_staged t \<and> id_col i = None
      \<and> acc' (rows t @ [i\<lparr>id_col := Some (fresh_id (rows t))\<rparr>])"
  let ?n = "fresh_id (rows t)"
  let ?t' = "\<lparr>rows = rows t @ [insert_row (rows t) i], new = [], deleted = []\<rparr>"
  have ins: "insert_row (rows t) i = i\<lparr>id_col := Some ?n\<rparr>"
    using h by (simp add: insert_row_def)
  have "Item_save acc' t i = Inr (?t', i\<lparr>id_col := Some ?n\<rparr>)"
    using h by (simp add: Item_save_def truthy_def commit_add_clean ins)
  moreover have "?n \<noteq> 0" using fresh_id_pos [of "rows t"] by simp
  moreover have "Some ?n \<notin> set (map id_col (rows t))"
    by (auto dest: fresh_id_unused)
  moreover have "Item_get ?t' ?n = Some (i\<lparr>id_col := Some ?n\<rparr>)"
    using h query_get_inserted [of i "rows t"] by (simp add: Item_get_def)
  ultimately show "\<exists>t' n. Item_save acc' t i = Inr (t', i\<lparr>id_col := Some n\<rparr>)
          \<and> n \<noteq> 0 \<and> Some n \<notin> set (map id_col (rows t))
          \<and> Item_get t' n = Some (i\<lparr>id_col := Some n\<rparr>)"
    by blast
qed

theorem save_fresh_assigns_id_witness:
  "nothing_staged
     \<lparr>rows = [\<lparr>id_col = Some 4, customer_id = PInt 5, wishlist_name = PStr ''a''\<rparr>],
      new = [], deleted = []\<rparr>
   \<and> fresh_id [\<lparr>id_col = Some 4, customer_id = PInt 5, wishlist_name = PStr ''a''\<rparr>] = 5
   \<and> Wishlist_columns_ok
        [\<lparr>id_col = Some 4, customer_id = PInt 5, wishlist_name = PStr ''a''\<rparr>,
         \<lparr>id_col = Some 5, customer_id = PInt 9, wishlist_name = PNone\<rparr>]
   \<and> (\<exists>s' n. Wishlist_save Wishlist_columns_ok
          \<lparr>rows = [\<lparr>id_col = Some 4, customer_id = PInt 5, wishlist_name = PStr ''a''\<rparr>],
           new = [], deleted = []\<rparr>
          \<lparr>id_col = None, customer_id = PInt 9, wishlist_name = PNone\<rparr>
        = Inr (s', \<lparr>id_col = Some n, customer_id = PInt 9, wishlist_name = PNone\<rparr>)
        \<and> n \<noteq> 0 \<and> n \<noteq> 4
        \<and> Wishlist_get s' n = Some \<lparr>id_col = Some n, customer_id = PInt 9, wishlist_name = PNone\<rparr>)
   \<and> nothing_staged \<lparr>rows = [], new = [], deleted = []\<rparr>
   \<and> Item_columns_ok
        [\<lparr>id_col = Some 1, wishlist_id = PInt 4, product_id = PInt 3, name = PStr ''pen'',
          description = PNone\<rparr>]
   \<and> (\<exists>t' n. Item_save Item_columns_ok \<lparr>rows = [], new = [], deleted = []\<rparr>
          \<lparr>id_col = None, wishlist_id = PInt 4, product_id = PInt 3, name = PStr ''pen'',
           description = PNone\<rparr>
        = Inr (t', \<lparr>id_col = Some n, wishlist_id = PInt 4, product_id = PInt 3,
                     name = PStr ''pen'', description = PNone\<rparr>)
        \<and> n \<noteq> 0
        \<and> Item_get t' n = Some \<lparr>id_col = Some n, wishlist_id = PInt 4, product_id = PInt 3,
                                   name = PStr ''pen'', description = PNone\<rparr>)"
proof -
  have f: "fresh_id [\<lparr>id_col = Some 4, customer_id = PInt 5, wishlist_name = PStr ''a''\<rparr>] = 5"
    by (simp add: fresh_id_def)
  have g: "fresh_id ([] :: Item list) = 1"
    by (simp add: fresh_id_def)
  note t = save_fresh_assigns_id
    [where s = "\<lparr>rows = [\<lparr>id_col = Some 4, customer_id = PInt 5, wishlist_name = PStr ''a''\<rparr>],
                 new = [], deleted = []\<rparr>"
       and w = "\<lparr>id_col = None, customer_id = PInt 9, wishlist_name = PNone\<rparr>"
       and acc = Wishlist_columns_ok
       and t = "\<lparr>rows = [], new = [], deleted = []\<rparr>"
       and i = "\<lparr>id_col = None, wishlist_id = PInt 4, product_id = PInt 3,
                 name = PStr ''pen'', description = PNone\<rparr>"
       and acc' = Item_columns_ok]
  show ?thesis
    using t by (simp add: f g nothing_staged_def Wishlist_columns_ok_def Item_columns_ok_def)
qed




text \<open>
  C8. \<^verbatim>\<open>find_by_customer_id\<close> yields exactly the persisted Wishlists whose
  \<^verbatim>\<open>customer_id\<close> is the given value, each as often and in the order \<^verbatim>\<open>all\<close> yields
  them. The example of the spec follows: two Wishlists of customer 5 and one of
  customer 9 are saved into an empty table, and the query for 5 yields the two.
\<close>

theorem find_by_customer_id_exact:
  "Wishlist_find_by_customer_id c s = filter (\<lambda>w. customer_id w = c) (Wishlist_all s)
   \<and> set (Wishlist_find_by_customer_id c s) = {w \<in> set (Wishlist_all s). customer_id w = c}
   \<and> Wishlist_save Wishlist_columns_ok \<lparr>rows = [], new = [], deleted = []\<rparr>
        \<lparr>id_col = None, customer_id = PInt 5, wishlist_name = PStr ''a''\<rparr>
      = Inr (\<lparr>rows = [\<lparr>id_col = Some 1, customer_id = PInt 5, wishlist_name = PStr ''a''\<rparr>],
              new = [], deleted = []\<rparr>,
             \<lparr>id_col = Some 1, customer_id = PInt 5, wishlist_name = PStr ''a''\<rparr>)
   \<and> Wishlist_save Wishlist_columns_ok
        \<lparr>rows = [\<lparr>id_col = Some 1, customer_id = PInt 5, wishlist_name = PStr ''a''\<rparr>],
         new = [], deleted = []\<rparr>
        \<lparr>id_col = None, customer_id = PInt 9, wishlist_name = PStr ''b''\<rparr>
      = Inr (\<lparr>rows = [\<lparr>id_col = Some 1, customer_id = PInt 5, wishlist_name = PStr ''a''\<rparr>,
                      \<lparr>id_col = Some 2, customer_id = PInt 9, wishlist_name = PStr ''b''\<rparr>],
              new = [], deleted = []\<rparr>,
             \<lparr>id_col = Some 2, customer_id = PInt 9, wishlist_name = PStr ''b''\<rparr>)
   \<and> Wishlist_save Wishlist_columns_ok
        \<lparr>rows = [\<lparr>id_col = Some 1, customer_id = PInt 5, wishlist_name = PStr ''a''\<rparr>,
                 \<lparr>id_col = Some 2, customer_id = PInt 9, wishlist_name = PStr ''b''\<rparr>],
         new = [], deleted = []\<rparr>
        \<lparr>id_col = None, customer_id = PInt 5, wishlist_name = PStr ''c''\<rparr>
      = Inr (\<lparr>rows = [\<lparr>id_col = Some 1, customer_id = PInt 5, wishlist_name = PStr ''a''\<rparr>,
                      \<lparr>id_col = Some 2, customer_id = PInt 9, wishlist_name = PStr ''b''\<rparr>,
                      \<lparr>id_col = Some 3, customer_id = PInt 5, wishlist_name = PStr ''c''\<rparr>],
              new = [], deleted = []\<rparr>,
             \<lparr>id_col = Some 3, customer_id = PInt 5, wishlist_name = PStr ''c''\<rparr>)
   \<and> Wishlist_find_by_customer_id (PInt 5)
        \<lparr>rows = [\<lparr>id_col = Some 1, customer_id = PInt 5, wishlist_name = PStr ''a''\<rparr>,
                 \<lparr>id_col = Some 2, customer_id = PInt 9, wishlist_name = PStr ''b''\<rparr>,
                 \<lparr>id_col = Some 3, customer_id = PInt 5, wishlist_name = PStr ''c''\<rparr>],
         new = [], deleted = []\<rparr>
      = [\<lparr>id_col = Some 1, customer_id = PInt 5, wishlist_name = PStr ''a''\<rparr>,
         \<lparr>id_col = Some 3, customer_id = PInt 5, wishlist_name = PStr ''c''\<rparr>]"
  by (simp add: Wishlist_find_by_customer_id_def query_filter_def Wishlist_all_def query_all_def
      Wishlist_save_def truthy_def session_commit_def session_add_def insert_row_def
      flush_deleted_def Wishlist_columns_ok_def fresh_id_def Let_def)

end
